theory Spec2Isabelle
  imports Complex_Main "HOL-Library.AList"
begin

section \<open>Strings\<close>

text \<open>
  Python strings are modelled as \<^typ>\<open>string\<close>; the characters are taken to be ASCII.
  \<open>lower\<close> is \<^verbatim>\<open>str.lower\<close>, \<open>py_strip\<close> is \<^verbatim>\<open>str.strip()\<close>,
  \<open>endswith\<close> is \<^verbatim>\<open>str.endswith\<close>, \<open>replace_char\<close> is \<^verbatim>\<open>str.replace\<close>
  for one-character arguments.
\<close>

definition lower_char :: "char \<Rightarrow> char" where
  "lower_char c =
     (let n = (of_char c :: nat)
      in if 65 \<le> n \<and> n \<le> 90 then char_of (n + 32) else c)"

definition lower :: "string \<Rightarrow> string" where
  "lower s = map lower_char s"

definition is_space :: "char \<Rightarrow> bool" where
  "is_space c = ((of_char c :: nat) \<in> {9, 10, 11, 12, 13, 28, 29, 30, 31, 32})"

definition py_strip :: "string \<Rightarrow> string" where
  "py_strip s = rev (dropWhile is_space (rev (dropWhile is_space s)))"

definition endswith :: "string \<Rightarrow> string \<Rightarrow> bool" where
  "endswith s suf = (take (length suf) (rev s) = rev suf)"

definition replace_char :: "char \<Rightarrow> char \<Rightarrow> string \<Rightarrow> string" where
  "replace_char old new s = map (\<lambda>c. if c = old then new else c) s"

text \<open>
  The two places that drop the extension:
  \<^verbatim>\<open>if track_name.endswith('.mp3'): track_name = track_name[:-4]\<close>.
\<close>

definition strip_mp3 :: "string \<Rightarrow> string" where
  "strip_mp3 track_name =
     (if endswith track_name ''.mp3'' then take (length track_name - 4) track_name
      else track_name)"

section \<open>The host: file system, JSON decoder, mixer\<close>

text \<open>
  What \<^verbatim>\<open>json.load\<close> returns: \<open>JObj\<close> is a Python dict in insertion order (its keys
  are distinct, the decoder keeps the last value of a repeated key).
\<close>

datatype json =
    JNull
  | JBool bool
  | JNum rat
  | JStr string
  | JArr "json list"
  | JObj "(string \<times> json) list"

text \<open>
  The exceptions of the model. \<open>LoadError\<close> stands for whatever \<^verbatim>\<open>open\<close> or
  \<^verbatim>\<open>json.load\<close> raises, \<open>OSError\<close> for what \<^verbatim>\<open>os.listdir\<close> raises,
  \<open>PygameError\<close> for \<^verbatim>\<open>pygame.error\<close>.
\<close>

datatype py_error = AttributeError | LoadError | OSError | PygameError | ValueError | IndexError

text \<open>
  The calls into \<^verbatim>\<open>os\<close>, \<^verbatim>\<open>json\<close> and \<^verbatim>\<open>pygame\<close> are answered by the host:
  \<open>json_load p\<close> is \<open>None\<close> when \<^verbatim>\<open>open\<close> or \<^verbatim>\<open>json.load\<close> raises,
  \<open>listdir d\<close> is \<open>None\<close> when \<^verbatim>\<open>os.listdir\<close> raises, \<open>sound_loads p\<close> says
  whether \<^verbatim>\<open>pygame.mixer.Sound(p)\<close> returns, \<open>mixer_init_ok\<close> whether
  \<^verbatim>\<open>pygame.mixer.init()\<close> returns.
\<close>

record host =
  path_exists :: "string \<Rightarrow> bool"
  path_isfile :: "string \<Rightarrow> bool"
  path_join :: "string \<Rightarrow> string \<Rightarrow> string"
  listdir :: "string \<Rightarrow> string list option"
  json_load :: "string \<Rightarrow> json option"
  sound_loads :: "string \<Rightarrow> bool"
  mixer_init_ok :: bool
  module_dir :: string

section \<open>Zone track map\<close>

text \<open>
  A Python \<^verbatim>\<open>dict[str, str]\<close> in insertion order: \<^verbatim>\<open>d[k] = v\<close> is
  \<^const>\<open>AList.update\<close>, \<^verbatim>\<open>d.get(k, default)\<close> reads \<^const>\<open>map_of\<close>,
  \<^verbatim>\<open>not d\<close> is \<open>d = []\<close>.
\<close>

type_synonym zone_map = "(string \<times> string) list"

text \<open>
  The \<^verbatim>\<open>for zone, data in maps_data.items()\<close> loop of
  \<^verbatim>\<open>create_zone_music_map\<close>. \<^verbatim>\<open>data.get\<close> raises AttributeError when \<open>data\<close> is
  not a dict, \<^verbatim>\<open>.strip()\<close> raises it when the music field is not a string. The
  dictionary \<open>zone_music\<close> built so far survives the exception, so it is returned with it.
\<close>

fun zone_music_loop :: "(string \<times> json) list \<Rightarrow> zone_map \<Rightarrow> py_error option \<times> zone_map" where
  "zone_music_loop [] zone_music = (None, zone_music)"
| "zone_music_loop ((zone, data) # items) zone_music =
     (case data of
        JObj members \<Rightarrow>
          (case (case map_of members ''music'' of None \<Rightarrow> JStr [] | Some v \<Rightarrow> v) of
             JStr raw \<Rightarrow>
               (let track_name = py_strip raw in
                if track_name \<noteq> []
                then zone_music_loop items (AList.update zone (strip_mp3 track_name) zone_music)
                else zone_music_loop items zone_music)
           | _ \<Rightarrow> (Some AttributeError, zone_music))
      | _ \<Rightarrow> (Some AttributeError, zone_music))"

text \<open>
  The \<^verbatim>\<open>try\<close> block: \<^verbatim>\<open>maps_data.items()\<close> raises AttributeError unless the decoded
  value is a dict.
\<close>

definition try_load_zone_music :: "host \<Rightarrow> string \<Rightarrow> py_error option \<times> zone_map" where
  "try_load_zone_music h maps_json_path =
     (case json_load h maps_json_path of
        None \<Rightarrow> (Some LoadError, [])
      | Some (JObj items) \<Rightarrow> zone_music_loop items []
      | Some _ \<Rightarrow> (Some AttributeError, []))"

definition default_zone_music :: zone_map where
  "default_zone_music = [(''coroTown'', ''CoroTown'')]"

text \<open>The exception of the \<^verbatim>\<open>try\<close> block is logged and dropped.\<close>

definition create_zone_music_map :: "host \<Rightarrow> string \<Rightarrow> zone_map" where
  "create_zone_music_map h maps_json_path =
     (let zone_music =
            (if maps_json_path \<noteq> [] \<and> path_isfile h maps_json_path
             then snd (try_load_zone_music h maps_json_path)
             else [])
      in if zone_music = [] then default_zone_music else zone_music)"

section \<open>Volumes\<close>

text \<open>
  Volumes are Python floats. Their arithmetic is a parameter of the model, so that nothing
  proved below rests on exact arithmetic: \<open>f_const\<close> reads a literal (\<^verbatim>\<open>0.6\<close>) or
  converts an int (\<^verbatim>\<open>steps\<close>), \<open>f_lt\<close> is \<^verbatim>\<open><\<close>.
\<close>

record 'v float_ops =
  f_add :: "'v \<Rightarrow> 'v \<Rightarrow> 'v"
  f_sub :: "'v \<Rightarrow> 'v \<Rightarrow> 'v"
  f_div :: "'v \<Rightarrow> 'v \<Rightarrow> 'v"
  f_lt :: "'v \<Rightarrow> 'v \<Rightarrow> bool"
  f_const :: "rat \<Rightarrow> 'v"

text \<open>The builtins \<^verbatim>\<open>max(a, b)\<close> and \<^verbatim>\<open>min(a, b)\<close>: the first argument wins a tie.\<close>

definition py_max :: "'v float_ops \<Rightarrow> 'v \<Rightarrow> 'v \<Rightarrow> 'v" where
  "py_max ops a b = (if f_lt ops a b then b else a)"

definition py_min :: "'v float_ops \<Rightarrow> 'v \<Rightarrow> 'v \<Rightarrow> 'v" where
  "py_min ops a b = (if f_lt ops b a then b else a)"

text \<open>The exact arithmetic of the rationals, used to run the model on examples.\<close>

definition exact_ops :: "rat float_ops" where
  "exact_ops = \<lparr>f_add = (+), f_sub = (-), f_div = (/), f_lt = (<), f_const = (\<lambda>q. q)\<rparr>"

section \<open>The controller\<close>

text \<open>
  A \<^verbatim>\<open>pygame.mixer.Channel\<close>: the sound it plays (every sound is played with
  \<^verbatim>\<open>loops=-1\<close>, so the channel is busy until it is stopped) and its volume. A sound is
  named by the path it was loaded from.
\<close>

type_synonym sound = string

record 'v channel =
  ch_id :: nat
  ch_sound :: "sound option"
  ch_volume :: 'v

text \<open>The calls made on the mixer, in order.\<close>

datatype 'v effect =
    ChPlay nat sound
  | ChStop nat
  | ChSetVolume nat 'v
  | Delay nat

text \<open>
  The fields of \<^verbatim>\<open>MusicManager\<close> (without \<open>maps_data\<close>, which no operation below
  reads), and the log of mixer calls.
\<close>

record 'v music_manager =
  maps_json_path :: string
  zone_music_map :: zone_map
  folder :: string
  base :: string
  music_channel :: "'v channel option"
  idle_channel :: "'v channel option"
  main_sound :: "sound option"
  idle_sound :: "sound option"
  normal_volume :: 'v
  muffled_volume :: 'v
  current_volume :: 'v
  fade_speed :: 'v
  is_idle_version :: bool
  mixer_log :: "'v effect list"

text \<open>
  \<^verbatim>\<open>Channel.play(sound, loops=-1)\<close>, \<^verbatim>\<open>Channel.stop()\<close>,
  \<^verbatim>\<open>Channel.set_volume(v)\<close> and \<^verbatim>\<open>Channel.get_busy()\<close>. A channel that starts to
  play has its volume reset to full.
\<close>

definition ch_play :: "'v float_ops \<Rightarrow> sound \<Rightarrow> 'v channel \<Rightarrow> 'v channel" where
  "ch_play ops sample ch = ch\<lparr>ch_sound := Some sample, ch_volume := f_const ops 1\<rparr>"

definition ch_stop :: "'v channel \<Rightarrow> 'v channel" where
  "ch_stop ch = ch\<lparr>ch_sound := None\<rparr>"

definition ch_set_volume :: "'v \<Rightarrow> 'v channel \<Rightarrow> 'v channel" where
  "ch_set_volume v ch = ch\<lparr>ch_volume := v\<rparr>"

definition get_busy :: "'v channel \<Rightarrow> bool" where
  "get_busy ch = (ch_sound ch \<noteq> None)"

subsection \<open>Finding an asset\<close>

definition mp3 :: "string \<Rightarrow> string" where
  "mp3 name = name @ ''.mp3''"

text \<open>
  \<^verbatim>\<open>find_music_file_case_insensitive\<close>: three passes over the listing; an exception of
  \<^verbatim>\<open>os.listdir\<close> is caught and gives \<open>None\<close>.
\<close>

definition find_music_file_case_insensitive :: "host \<Rightarrow> string \<Rightarrow> string \<Rightarrow> string option" where
  "find_music_file_case_insensitive h dir track_name =
     (if \<not> path_exists h dir then None
      else case listdir h dir of
        None \<Rightarrow> None
      | Some files \<Rightarrow>
          (case find (\<lambda>file. lower file = lower (mp3 track_name)) files of
             Some file \<Rightarrow> Some (path_join h dir file)
           | None \<Rightarrow>
          (case find (\<lambda>file. lower file = lower (mp3 (replace_char CHR ''_'' CHR '' '' track_name))) files of
             Some file \<Rightarrow> Some (path_join h dir file)
           | None \<Rightarrow>
          (case find (\<lambda>file. lower file = lower (mp3 (replace_char CHR '' '' CHR ''_'' track_name))) files of
             Some file \<Rightarrow> Some (path_join h dir file)
           | None \<Rightarrow> None))))"

definition get_full_path :: "host \<Rightarrow> string \<Rightarrow> string \<Rightarrow> string" where
  "get_full_path h dir name =
     (let exact_path = path_join h dir (mp3 name)
      in if path_exists h exact_path then exact_path
         else case find_music_file_case_insensitive h dir name of
                Some alt_path \<Rightarrow> alt_path
              | None \<Rightarrow> exact_path)"

subsection \<open>Base track\<close>

text \<open>
  \<^verbatim>\<open>load_base_track\<close>: an exception of \<^verbatim>\<open>pygame.mixer.Sound\<close> is caught, and
  \<open>main_sound\<close> keeps the value it had.
\<close>

definition load_base_track :: "host \<Rightarrow> 'v music_manager \<Rightarrow> 'v music_manager" where
  "load_base_track h s =
     (let track_path = get_full_path h (folder s) (base s)
      in if path_exists h track_path
         then (if sound_loads h track_path then s\<lparr>main_sound := Some track_path\<rparr> else s)
         else case find_music_file_case_insensitive h (folder s) (base s) of
                Some alt_path \<Rightarrow>
                  (if sound_loads h alt_path then s\<lparr>main_sound := Some alt_path\<rparr> else s)
              | None \<Rightarrow> s)"

definition play_base_track :: "'v float_ops \<Rightarrow> 'v music_manager \<Rightarrow> 'v music_manager" where
  "play_base_track ops s =
     (case (main_sound s, music_channel s) of
        (Some sample, Some ch) \<Rightarrow>
          s\<lparr>music_channel := Some (ch_set_volume (current_volume s) (ch_play ops sample ch)),
            mixer_log := mixer_log s @ [ChPlay (ch_id ch) sample, ChSetVolume (ch_id ch) (current_volume s)]\<rparr>
      | _ \<Rightarrow> s)"

definition stop_base_track :: "'v music_manager \<Rightarrow> 'v music_manager" where
  "stop_base_track s =
     (case music_channel s of
        Some ch \<Rightarrow> s\<lparr>music_channel := Some (ch_stop ch), mixer_log := mixer_log s @ [ChStop (ch_id ch)]\<rparr>
      | None \<Rightarrow> s)"

subsection \<open>Zone change\<close>

text \<open>The first lines of \<^verbatim>\<open>set_zone_music\<close>: the track a zone resolves to.\<close>

definition zone_track_name :: "zone_map \<Rightarrow> string \<Rightarrow> string" where
  "zone_track_name zm zone_name =
     strip_mp3 (case map_of zm zone_name of Some t \<Rightarrow> t | None \<Rightarrow> lower zone_name)"

definition set_zone_music ::
  "host \<Rightarrow> 'v float_ops \<Rightarrow> string \<Rightarrow> 'v music_manager \<Rightarrow> 'v music_manager" where
  "set_zone_music h ops zone_name s =
     (let track_name = zone_track_name (zone_music_map s) zone_name
      in if track_name \<noteq> base s
         then (let s1 = load_base_track h (stop_base_track (s\<lparr>base := track_name\<rparr>))
               in if main_sound s1 \<noteq> None
                  then (let s2 = play_base_track ops s1
                        in s2\<lparr>is_idle_version := False, current_volume := normal_volume s2\<rparr>)
                  else s1)
         else s)"

subsection \<open>Fading\<close>

definition steps :: nat where
  "steps = 10"

text \<open>
  The loop of \<^verbatim>\<open>fade_to\<close>; \<^verbatim>\<open>self.music_channel.set_volume\<close> raises AttributeError
  on \<open>None\<close>.
\<close>

fun fade_loop ::
  "'v float_ops \<Rightarrow> nat \<Rightarrow> 'v \<Rightarrow> 'v music_manager \<Rightarrow> py_error + 'v music_manager" where
  "fade_loop ops 0 volume_step s = Inr s"
| "fade_loop ops (Suc n) volume_step s =
     (let v = f_add ops (current_volume s) volume_step;
          v' = py_max ops (f_const ops 0) (py_min ops (f_const ops 1) v)
      in case music_channel s of
           None \<Rightarrow> Inl AttributeError
         | Some ch \<Rightarrow>
             fade_loop ops n volume_step
               (s\<lparr>current_volume := v',
                  music_channel := Some (ch_set_volume v' ch),
                  mixer_log := mixer_log s @ [ChSetVolume (ch_id ch) v', Delay 30]\<rparr>))"

definition fade_to ::
  "'v float_ops \<Rightarrow> 'v \<Rightarrow> 'v music_manager \<Rightarrow> py_error + 'v music_manager" where
  "fade_to ops target_volume s =
     (case music_channel s of
        None \<Rightarrow> Inr s
      | Some _ \<Rightarrow>
          fade_loop ops steps
            (f_div ops (f_sub ops target_volume (current_volume s)) (f_const ops (of_nat steps))) s)"

subsection \<open>Idle and back\<close>

text \<open>
  The body both \<^verbatim>\<open>try\<close> blocks of \<^verbatim>\<open>play_idle_track\<close> share. Every exception is
  caught: when \<^verbatim>\<open>pygame.mixer.Sound\<close> raises nothing has changed, when
  \<^verbatim>\<open>self.idle_channel.play\<close> raises (no channel) \<open>idle_sound\<close> is already assigned.
\<close>

definition try_play_idle ::
  "host \<Rightarrow> 'v float_ops \<Rightarrow> string \<Rightarrow> 'v music_manager \<Rightarrow> 'v music_manager" where
  "try_play_idle h ops p s =
     (if sound_loads h p
      then (case idle_channel s of
              None \<Rightarrow> s\<lparr>idle_sound := Some p\<rparr>
            | Some ch \<Rightarrow>
                s\<lparr>idle_sound := Some p,
                  idle_channel := Some (ch_set_volume (muffled_volume s) (ch_play ops p ch)),
                  mixer_log := mixer_log s @ [ChPlay (ch_id ch) p, ChSetVolume (ch_id ch) (muffled_volume s)]\<rparr>)
      else s)"

definition play_idle_track ::
  "host \<Rightarrow> 'v float_ops \<Rightarrow> string \<Rightarrow> 'v music_manager \<Rightarrow> 'v music_manager" where
  "play_idle_track h ops track_name s =
     (let s1 = (case idle_channel s of
                  Some ch \<Rightarrow> s\<lparr>idle_channel := Some (ch_stop ch), mixer_log := mixer_log s @ [ChStop (ch_id ch)]\<rparr>
                | None \<Rightarrow> s);
          full_path = get_full_path h (folder s1) track_name
      in if path_exists h full_path then try_play_idle h ops full_path s1
         else case find_music_file_case_insensitive h (folder s1) track_name of
                Some alt_path \<Rightarrow> try_play_idle h ops alt_path s1
              | None \<Rightarrow> s1)"

definition trigger_idle_audio ::
  "host \<Rightarrow> 'v float_ops \<Rightarrow> int \<Rightarrow> 'v music_manager \<Rightarrow> py_error + 'v music_manager" where
  "trigger_idle_audio h ops idle_option s =
     (case music_channel s of
        None \<Rightarrow> Inr s
      | Some _ \<Rightarrow>
          (case (if idle_option = 1 then fade_to ops (muffled_volume s) s
                 else if idle_option = 2 then Inr (play_idle_track h ops ''idleDaniel'' s)
                 else if idle_option = 3 then Inr (play_idle_track h ops ''idle_track_2'' s)
                 else Inr s) of
             Inl e \<Rightarrow> Inl e
           | Inr s1 \<Rightarrow> Inr (s1\<lparr>is_idle_version := True\<rparr>)))"

text \<open>
  \<^verbatim>\<open>reset_to_base_audio\<close>: \<^verbatim>\<open>self.music_channel.get_busy()\<close> is called without a
  guard and raises AttributeError on \<open>None\<close>.
\<close>

definition reset_to_base_audio ::
  "'v float_ops \<Rightarrow> 'v music_manager \<Rightarrow> py_error + 'v music_manager" where
  "reset_to_base_audio ops s =
     (if is_idle_version s
      then (let s1 = (case idle_channel s of
                        Some ch \<Rightarrow>
                          (if get_busy ch
                           then s\<lparr>idle_channel := Some (ch_stop ch),
                                  mixer_log := mixer_log s @ [ChStop (ch_id ch)]\<rparr>
                           else s)
                      | None \<Rightarrow> s)
            in case music_channel s1 of
                 None \<Rightarrow> Inl AttributeError
               | Some mch \<Rightarrow>
                   (let s2 = (if \<not> get_busy mch \<and> main_sound s1 \<noteq> None
                              then play_base_track ops s1 else s1)
                    in case fade_to ops (normal_volume s2) s2 of
                         Inl e \<Rightarrow> Inl e
                       | Inr s3 \<Rightarrow>
                           Inr (s3\<lparr>current_volume := normal_volume s3, is_idle_version := False\<rparr>)))
      else Inr s)"

subsection \<open>Construction\<close>

text \<open>
  \<^verbatim>\<open>__init__\<close>. The listing printed for debugging is not guarded, so an exception of
  \<^verbatim>\<open>os.listdir\<close> leaves the constructor, as one of \<^verbatim>\<open>pygame.mixer.init()\<close> does.
  \<^verbatim>\<open>init_channels\<close> takes channels 0 and 1 of the fresh mixer: silent, at full volume.
  \<^verbatim>\<open>load_maps_data\<close> catches its exceptions and only fills \<open>maps_data\<close>; it is left out.
\<close>

definition init_channels :: "'v float_ops \<Rightarrow> 'v music_manager \<Rightarrow> 'v music_manager" where
  "init_channels ops s =
     s\<lparr>music_channel := Some \<lparr>ch_id = 0, ch_sound = None, ch_volume = f_const ops 1\<rparr>,
       idle_channel := Some \<lparr>ch_id = 1, ch_sound = None, ch_volume = f_const ops 1\<rparr>\<rparr>"

definition init_music_manager ::
  "host \<Rightarrow> 'v float_ops \<Rightarrow> string \<Rightarrow> string \<Rightarrow> string option \<Rightarrow> py_error + 'v music_manager" where
  "init_music_manager h ops starting_track music_dir maps_json_path_arg =
     (let json_path =
            (case maps_json_path_arg of
               None \<Rightarrow> path_join h (module_dir h) ''maps.json''
             | Some p \<Rightarrow> if p = [] then path_join h (module_dir h) ''maps.json'' else p);
          s = \<lparr>maps_json_path = json_path,
               zone_music_map = create_zone_music_map h json_path,
               folder = music_dir,
               base = starting_track,
               music_channel = None,
               idle_channel = None,
               main_sound = None,
               idle_sound = None,
               normal_volume = f_const ops (6 / 10),
               muffled_volume = f_const ops (2 / 10),
               current_volume = f_const ops (6 / 10),
               fade_speed = f_const ops (1 / 100),
               is_idle_version = False,
               mixer_log = []\<rparr>
      in if path_exists h music_dir \<and> listdir h music_dir = None then Inl OSError
         else if \<not> mixer_init_ok h then Inl PygameError
         else (let s1 = load_base_track h (init_channels ops s)
               in Inr (if main_sound s1 \<noteq> None then play_base_track ops s1 else s1)))"

section \<open>Choosing the idle variant\<close>

text \<open>
  \<^verbatim>\<open>random.choices(population, weights)[0]\<close> as the standard library computes it,
  with the value \<open>u\<close> of \<^verbatim>\<open>random()\<close> (uniform in \<open>[0, 1)\<close>) as an argument:
  \<^verbatim>\<open>population[bisect(cum_weights, random() * total, 0, n - 1)]\<close>.
\<close>

fun accumulate :: "int \<Rightarrow> int list \<Rightarrow> int list" where
  "accumulate acc [] = []"
| "accumulate acc (w # ws) = (acc + w) # accumulate (acc + w) ws"

function bisect :: "int list \<Rightarrow> real \<Rightarrow> nat \<Rightarrow> nat \<Rightarrow> nat" where
  "bisect a x lo hi =
     (if lo < hi
      then (if x < of_int (a ! ((lo + hi) div 2))
            then bisect a x lo ((lo + hi) div 2)
            else bisect a x ((lo + hi) div 2 + 1) hi)
      else lo)"
  by pat_completeness auto
termination
  by (relation "measure (\<lambda>(a, x, lo, hi). hi - lo)") auto

definition choices :: "'a list \<Rightarrow> int list \<Rightarrow> real \<Rightarrow> py_error + 'a" where
  "choices population weights u =
     (let n = length population;
          cum_weights = accumulate 0 weights
      in if length cum_weights \<noteq> n then Inl ValueError
         else if cum_weights = [] then Inl IndexError
         else if real_of_int (last cum_weights) \<le> 0 then Inl ValueError
         else Inr (population ! bisect cum_weights (u * real_of_int (last cum_weights)) 0 (n - 1)))"

definition choose_idle_option :: "real \<Rightarrow> py_error + int" where
  "choose_idle_option u = choices [1, 2, 3] [5, 2, 2] u"

section \<open>Example hosts\<close>

text \<open>\<^verbatim>\<open>os.path.join\<close> of two components on a POSIX host.\<close>

definition posix_join :: "string \<Rightarrow> string \<Rightarrow> string" where
  "posix_join a b =
     (if take 1 b = ''/'' then b
      else if a = [] \<or> endswith a ''/'' then a @ b
      else a @ ''/'' @ b)"

text \<open>
  A host whose music directory \<^verbatim>\<open>music\<close> holds the files \<open>files\<close>, all of them
  decodable, and whose \<^verbatim>\<open>maps.json\<close> decodes to \<open>cfg\<close> (when it is a file at all).
\<close>

definition example_host :: "bool \<Rightarrow> json option \<Rightarrow> string list \<Rightarrow> host" where
  "example_host is_file cfg files =
     \<lparr>path_exists = (\<lambda>p. p = ''music'' \<or> p \<in> set (map (posix_join ''music'') files)),
      path_isfile = (\<lambda>p. is_file \<and> p = ''maps.json''),
      path_join = posix_join,
      listdir = (\<lambda>d. if d = ''music'' then Some files else None),
      json_load = (\<lambda>p. if is_file \<and> p = ''maps.json'' then cfg else None),
      sound_loads = (\<lambda>p. p \<in> set (map (posix_join ''music'') files)),
      mixer_init_ok = True,
      module_dir = []\<rparr>"

text \<open>Running one operation after another, stopping at the first exception.\<close>

definition and_then :: "py_error + 'a \<Rightarrow> ('a \<Rightarrow> py_error + 'b) \<Rightarrow> py_error + 'b" where
  "and_then r f = (case r of Inl e \<Rightarrow> Inl e | Inr x \<Rightarrow> f x)"

text \<open>The hosts and states of the examples.\<close>

definition town_host :: host where
  "town_host = example_host False None [''CoroTown.mp3'', ''Route 1.mp3'', ''idleDaniel.mp3'']"

definition bare_host :: host where
  "bare_host = example_host False None []"

definition theme_host :: host where
  "theme_host =
     example_host True (Some (JObj [(''town'', JObj [(''music'', JStr ''Theme.mp3'')])]))
       [''Theme.mp3'']"

text \<open>
  Two hosts whose \<^verbatim>\<open>maps.json\<close> has the zone \<open>town\<close> and a zone \<open>cave\<close> with
  \<^verbatim>\<open>"music": null\<close>: \<open>cave\<close> after \<open>town\<close>, and \<open>cave\<close> before it.
\<close>

definition null_after_host :: host where
  "null_after_host =
     example_host True
       (Some (JObj [(''town'', JObj [(''music'', JStr ''Theme.mp3'')]),
                    (''cave'', JObj [(''music'', JNull)])]))
       [''Theme.mp3'']"

definition null_before_host :: host where
  "null_before_host =
     example_host True
       (Some (JObj [(''cave'', JObj [(''music'', JNull)]),
                    (''town'', JObj [(''music'', JStr ''Theme.mp3'')])]))
       [''Theme.mp3'']"

text \<open>The controller that \<^verbatim>\<open>MusicManager("CoroTown", "music")\<close> builds on \<open>town_host\<close>.\<close>

definition playing_state :: "rat music_manager" where
  "playing_state =
     \<lparr>maps_json_path = ''maps.json'',
      zone_music_map = [(''coroTown'', ''CoroTown'')],
      folder = ''music'',
      base = ''CoroTown'',
      music_channel = Some \<lparr>ch_id = 0, ch_sound = Some ''music/CoroTown.mp3'', ch_volume = 3 / 5\<rparr>,
      idle_channel = Some \<lparr>ch_id = 1, ch_sound = None, ch_volume = 1\<rparr>,
      main_sound = Some ''music/CoroTown.mp3'',
      idle_sound = None,
      normal_volume = 3 / 5,
      muffled_volume = 1 / 5,
      current_volume = 3 / 5,
      fade_speed = 1 / 100,
      is_idle_version = False,
      mixer_log = [ChPlay 0 ''music/CoroTown.mp3'', ChSetVolume 0 (3 / 5)]\<rparr>"

text \<open>
  The controller built on \<open>bare_host\<close>, where no track can be loaded, after
  \<^verbatim>\<open>trigger_idle_audio(1)\<close>.
\<close>

definition muffled_silent_run :: "py_error + rat music_manager" where
  "muffled_silent_run =
     and_then (init_music_manager bare_host exact_ops ''CoroTown'' ''music'' None)
       (trigger_idle_audio bare_host exact_ops 1)"

definition muffled_silent_state :: "rat music_manager" where
  "muffled_silent_state = projr muffled_silent_run"

section \<open>Properties of the zone track map\<close>

lemma zone_music_loop_other:
  "zone \<notin> fst ` set items \<Longrightarrow> map_of (snd (zone_music_loop items zm)) zone = map_of zm zone"
proof (induction items arbitrary: zm)
  case Nil
  then show ?case by simp
next
  case (Cons item items)
  obtain z d where item: "item = (z, d)" by (cases item)
  from Cons.prems have ne: "z \<noteq> zone" and rest: "zone \<notin> fst ` set items"
    by (auto simp: item)
  show ?case
    using Cons.IH [OF rest] ne
    by (auto simp: item Let_def update_conv' split: json.splits option.splits)
qed

lemma zone_music_loop_stores:
  assumes "fst (zone_music_loop items zm) = None"
    and "distinct (map fst items)"
    and "(zone, JObj members) \<in> set items"
    and "map_of members ''music'' = Some (JStr raw)"
    and "py_strip raw \<noteq> []"
  shows "map_of (snd (zone_music_loop items zm)) zone = Some (strip_mp3 (py_strip raw))"
  using assms
proof (induction items arbitrary: zm)
  case Nil
  then show ?case by simp
next
  case (Cons item items)
  obtain z d where item: "item = (z, d)" by (cases item)
  show ?case
  proof (cases "(zone, JObj members) = item")
    case True
    then have z: "z = zone" and d: "d = JObj members" by (auto simp: item)
    from Cons.prems(2) have "zone \<notin> fst ` set items" by (auto simp: item z)
    then show ?thesis
      using Cons.prems(4,5)
      by (simp add: item z d Let_def zone_music_loop_other update_conv')
  next
    case False
    with Cons.prems(3) have mem: "(zone, JObj members) \<in> set items" by auto
    from Cons.prems(2) have dist: "distinct (map fst items)" by simp
    show ?thesis
      using Cons.prems(1) Cons.IH [OF _ dist mem Cons.prems(4,5)]
      by (auto simp: item Let_def split: json.splits option.splits if_splits)
  qed
qed

lemma set_update_entries: "set (AList.update k v al) \<subseteq> insert (k, v) (set al)"
  by (induction al) auto

lemma zone_music_loop_entries:
  "(z, t) \<in> set (snd (zone_music_loop items zm)) \<Longrightarrow>
   (z, t) \<in> set zm \<or>
   (\<exists>members raw. (z, JObj members) \<in> set items \<and> map_of members ''music'' = Some (JStr raw)
      \<and> t = strip_mp3 (py_strip raw))"
proof (induction items arbitrary: zm)
  case Nil
  then show ?case by simp
next
  case (Cons item items)
  obtain zone d where item: "item = (zone, d)" by (cases item)
  show ?case
  proof (cases d)
    case (JObj members)
    show ?thesis
    proof (cases "map_of members ''music''")
      case None
      with Cons.prems Cons.IH [of zm] show ?thesis
        by (auto simp: item JObj py_strip_def)
    next
      case (Some v)
      show ?thesis
      proof (cases v)
        case (JStr raw)
        show ?thesis
        proof (cases "py_strip raw = []")
          case True
          with Cons.prems Cons.IH [of zm] show ?thesis
            by (auto simp: item JObj Some JStr)
        next
          case False
          with Cons.prems have
            "(z, t) \<in> set (snd (zone_music_loop items
                (AList.update zone (strip_mp3 (py_strip raw)) zm)))"
            by (simp add: item JObj Some JStr)
          from Cons.IH [OF this] set_update_entries [of zone "strip_mp3 (py_strip raw)" zm]
          consider "(z, t) \<in> set zm" | "(z, t) = (zone, strip_mp3 (py_strip raw))"
            | "\<exists>members raw. (z, JObj members) \<in> set items
                \<and> map_of members ''music'' = Some (JStr raw) \<and> t = strip_mp3 (py_strip raw)"
            by auto
          then show ?thesis
          proof cases
            case 1
            then show ?thesis by simp
          next
            case 2
            have "(zone, JObj members) \<in> set (item # items)"
              by (simp add: item JObj)
            moreover have "map_of members ''music'' = Some (JStr raw)"
              by (simp add: Some JStr)
            ultimately show ?thesis using 2 by blast
          next
            case 3
            then show ?thesis by auto
          qed
        qed
      qed (use Cons.prems in \<open>auto simp: item JObj Some\<close>)
    qed
  qed (use Cons.prems in \<open>auto simp: item\<close>)
qed

text \<open>
  C5. Loading the zone track map never gives an empty map, and gives the single fallback
  entry \<open>coroTown \<mapsto> CoroTown\<close> when the file is missing, when it cannot be opened or
  decoded, and when reading it stored no entry. The function is total: every exception of
  its \<^verbatim>\<open>try\<close> block is caught.
\<close>

theorem create_zone_music_map_fails_soft:
  "create_zone_music_map h p \<noteq> []
   \<and> (p = [] \<or> \<not> path_isfile h p \<longrightarrow> create_zone_music_map h p = [(''coroTown'', ''CoroTown'')])
   \<and> (json_load h p = None \<longrightarrow> create_zone_music_map h p = [(''coroTown'', ''CoroTown'')])
   \<and> (snd (try_load_zone_music h p) = [] \<longrightarrow>
        create_zone_music_map h p = [(''coroTown'', ''CoroTown'')])"
  by (auto simp: create_zone_music_map_def default_zone_music_def try_load_zone_music_def Let_def
      split: option.splits json.splits)

text \<open>
  A missing file, a file that does not decode, the configurations \<^verbatim>\<open>{}\<close> and
  \<^verbatim>\<open>[]\<close>, and a zone whose music field is blank.
\<close>

theorem create_zone_music_map_fails_soft_witness:
  "create_zone_music_map (example_host False None []) ''maps.json'' = [(''coroTown'', ''CoroTown'')]
   \<and> create_zone_music_map (example_host True None []) ''maps.json'' = [(''coroTown'', ''CoroTown'')]
   \<and> create_zone_music_map (example_host True (Some (JObj [])) []) ''maps.json''
       = [(''coroTown'', ''CoroTown'')]
   \<and> create_zone_music_map (example_host True (Some (JArr [])) []) ''maps.json''
       = [(''coroTown'', ''CoroTown'')]
   \<and> create_zone_music_map
         (example_host True (Some (JObj [(''town'', JObj [(''music'', JStr ''  '')])])) [])
         ''maps.json'' = [(''coroTown'', ''CoroTown'')]"
proof -
  have a: "\<not> path_isfile (example_host False None []) ''maps.json''"
    by (simp add: example_host_def)
  have b: "json_load (example_host True None []) ''maps.json'' = None"
    by (simp add: example_host_def)
  have c: "snd (try_load_zone_music (example_host True (Some (JObj [])) []) ''maps.json'') = []"
    by (simp add: example_host_def try_load_zone_music_def)
  have d: "snd (try_load_zone_music (example_host True (Some (JArr [])) []) ''maps.json'') = []"
    by (simp add: example_host_def try_load_zone_music_def)
  have e: "snd (try_load_zone_music
      (example_host True (Some (JObj [(''town'', JObj [(''music'', JStr ''  '')])])) [])
      ''maps.json'') = []"
    by (simp add: example_host_def try_load_zone_music_def py_strip_def is_space_def)
  show ?thesis
    using a b c d e
      create_zone_music_map_fails_soft [of "example_host False None []" "''maps.json''"]
      create_zone_music_map_fails_soft [of "example_host True None []" "''maps.json''"]
      create_zone_music_map_fails_soft [of "example_host True (Some (JObj [])) []" "''maps.json''"]
      create_zone_music_map_fails_soft [of "example_host True (Some (JArr [])) []" "''maps.json''"]
      create_zone_music_map_fails_soft
        [of "example_host True (Some (JObj [(''town'', JObj [(''music'', JStr ''  '')])])) []"
            "''maps.json''"]
    by blast
qed

lemma strip_theme:
  "py_strip ''Theme.mp3'' = ''Theme.mp3''"
  "strip_mp3 ''Theme.mp3'' = ''Theme''"
  "strip_mp3 ''Theme'' = ''Theme''"
  by (simp_all add: py_strip_def is_space_def strip_mp3_def endswith_def)

lemma zone_music_loop_append:
  "fst (zone_music_loop before zm) = None \<Longrightarrow>
   zone_music_loop (before @ rest) zm = zone_music_loop rest (snd (zone_music_loop before zm))"
proof (induction before arbitrary: zm)
  case Nil
  then show ?case by simp
next
  case (Cons item before)
  obtain z d where item: "item = (z, d)" by (cases item)
  from Cons.prems Cons.IH show ?case
    by (auto simp: item Let_def split: json.splits option.splits if_splits)
qed

text \<open>
  C9 (as amended). Let the configuration hold a zone entry with the music field \<open>raw\<close>
  (not blank), let the entries before it be read without an exception, and let the zone
  not occur again after it (the keys of a dict are distinct). Then the zone is stored as
  \<open>raw\<close> stripped of surrounding blanks and of one trailing \<^verbatim>\<open>.mp3\<close>, whatever
  follows it; for \<^verbatim>\<open>"town": {"music": "Theme.mp3"}\<close> zone \<open>town\<close> resolves to
  \<open>Theme\<close>. Every entry of the map, the fallback apart, is a music field stripped in
  this way.
\<close>

theorem create_zone_music_map_strips_mp3:
  assumes "p \<noteq> []" and "path_isfile h p"
    and "json_load h p = Some (JObj (before @ (zone, JObj members) # after))"
    and "fst (zone_music_loop before []) = None"
    and "zone \<notin> fst ` set after"
    and "map_of members ''music'' = Some (JStr raw)"
    and "py_strip raw \<noteq> []"
  shows "map_of (create_zone_music_map h p) zone = Some (strip_mp3 (py_strip raw))
    \<and> zone_track_name (create_zone_music_map h p) zone = strip_mp3 (strip_mp3 (py_strip raw))
    \<and> (raw = ''Theme.mp3'' \<longrightarrow> zone_track_name (create_zone_music_map h p) zone = ''Theme'')
    \<and> (\<forall>(z, t) \<in> set (create_zone_music_map h p).
           (z, t) = (''coroTown'', ''CoroTown'') \<or>
           (\<exists>ms r. (z, JObj ms) \<in> set (before @ (zone, JObj members) # after)
              \<and> map_of ms ''music'' = Some (JStr r) \<and> t = strip_mp3 (py_strip r)))"
proof -
  define items where "items = before @ (zone, JObj members) # after"
  define zm1 where "zm1 = snd (zone_music_loop before [])"
  have loaded: "snd (try_load_zone_music h p) = snd (zone_music_loop items [])"
    using assms(3) by (simp add: try_load_zone_music_def items_def)
  have create: "create_zone_music_map h p =
      (if snd (zone_music_loop items []) = [] then [(''coroTown'', ''CoroTown'')]
       else snd (zone_music_loop items []))"
    using assms(1,2) by (simp add: create_zone_music_map_def loaded default_zone_music_def)
  have "zone_music_loop items [] =
      zone_music_loop after (AList.update zone (strip_mp3 (py_strip raw)) zm1)"
    using assms(6,7) zone_music_loop_append [OF assms(4), of "(zone, JObj members) # after"]
    by (simp add: items_def zm1_def)
  then have m: "map_of (snd (zone_music_loop items [])) zone = Some (strip_mp3 (py_strip raw))"
    using zone_music_loop_other [OF assms(5)] by (simp add: update_conv')
  then have "snd (zone_music_loop items []) \<noteq> []" by auto
  with m have a: "map_of (create_zone_music_map h p) zone = Some (strip_mp3 (py_strip raw))"
    by (simp add: create)
  then have b: "zone_track_name (create_zone_music_map h p) zone
      = strip_mp3 (strip_mp3 (py_strip raw))"
    by (simp add: zone_track_name_def)
  have c: "raw = ''Theme.mp3'' \<longrightarrow> zone_track_name (create_zone_music_map h p) zone = ''Theme''"
    using b by (simp add: strip_theme)
  have d: "(z, t) = (''coroTown'', ''CoroTown'') \<or>
           (\<exists>members raw. (z, JObj members) \<in> set items
              \<and> map_of members ''music'' = Some (JStr raw) \<and> t = strip_mp3 (py_strip raw))"
    if "(z, t) \<in> set (create_zone_music_map h p)" for z t
  proof (cases "snd (zone_music_loop items []) = []")
    case True
    with that show ?thesis by (simp add: create)
  next
    case False
    with that have "(z, t) \<in> set (snd (zone_music_loop items []))" by (simp add: create)
    from zone_music_loop_entries [OF this] show ?thesis by simp
  qed
  have d': "\<forall>(z, t) \<in> set (create_zone_music_map h p).
           (z, t) = (''coroTown'', ''CoroTown'') \<or>
           (\<exists>members raw. (z, JObj members) \<in> set items
              \<and> map_of members ''music'' = Some (JStr raw) \<and> t = strip_mp3 (py_strip raw))"
    using d by blast
  from a b c d' [unfolded items_def] show ?thesis
    by blast
qed

text \<open>
  The configuration with \<open>town\<close> alone, and the one where the zone with
  \<^verbatim>\<open>"music": null\<close> comes after \<open>town\<close>: the exception it raises ends the loop with
  \<open>town\<close> already stored.
\<close>

theorem create_zone_music_map_strips_mp3_witness:
  "map_of (create_zone_music_map theme_host ''maps.json'') ''town'' = Some ''Theme''
   \<and> zone_track_name (create_zone_music_map theme_host ''maps.json'') ''town'' = ''Theme''
   \<and> fst (try_load_zone_music null_after_host ''maps.json'') = Some AttributeError
   \<and> map_of (create_zone_music_map null_after_host ''maps.json'') ''town'' = Some ''Theme''
   \<and> zone_track_name (create_zone_music_map null_after_host ''maps.json'') ''town'' = ''Theme''"
proof -
  have h1: "''maps.json'' \<noteq> []" "path_isfile theme_host ''maps.json''"
    "json_load theme_host ''maps.json'' =
       Some (JObj ([] @ (''town'', JObj [(''music'', JStr ''Theme.mp3'')]) # []))"
    by (simp_all add: theme_host_def example_host_def)
  have h2: "''maps.json'' \<noteq> []" "path_isfile null_after_host ''maps.json''"
    "json_load null_after_host ''maps.json'' =
       Some (JObj ([] @ (''town'', JObj [(''music'', JStr ''Theme.mp3'')])
                        # [(''cave'', JObj [(''music'', JNull)])]))"
    by (simp_all add: null_after_host_def example_host_def)
  have l: "fst (zone_music_loop [] []) = None"
    "map_of [(''music'', JStr ''Theme.mp3'')] ''music'' = Some (JStr ''Theme.mp3'')"
    "py_strip ''Theme.mp3'' \<noteq> []"
    by (simp_all add: strip_theme)
  have k1: "''town'' \<notin> fst ` set ([] :: (string \<times> json) list)"
    by simp
  have k2: "''town'' \<notin> fst ` set [(''cave'', JObj [(''music'', JNull)])]"
    by simp
  have e: "fst (try_load_zone_music null_after_host ''maps.json'') = Some AttributeError"
    by (simp add: try_load_zone_music_def null_after_host_def example_host_def strip_theme)
  from create_zone_music_map_strips_mp3 [OF h1 l(1) k1 l(2,3)]
    create_zone_music_map_strips_mp3 [OF h2 l(1) k2 l(2,3)] e
  show ?thesis by (simp add: strip_theme)
qed

text \<open>
  C9 as stated fails. In \<^verbatim>\<open>{"cave": {"music": null}, "town": {"music": "Theme.mp3"}}\<close>
  the zone \<open>cave\<close> comes first; \<^verbatim>\<open>None.strip()\<close> raises, the \<^verbatim>\<open>try\<close> block around the
  whole loop ends before \<open>town\<close> is read, the map is the fallback, and zone \<open>town\<close>
  resolves to \<^verbatim>\<open>town\<close>.
\<close>

theorem malformed_zone_before_town_gives_fallback:
  "json_load null_before_host ''maps.json'' =
     Some (JObj [(''cave'', JObj [(''music'', JNull)]),
                 (''town'', JObj [(''music'', JStr ''Theme.mp3'')])])
   \<and> create_zone_music_map null_before_host ''maps.json'' = [(''coroTown'', ''CoroTown'')]
   \<and> zone_track_name (create_zone_music_map null_before_host ''maps.json'') ''town'' = ''town''
   \<and> zone_track_name (create_zone_music_map null_before_host ''maps.json'') ''town'' \<noteq> ''Theme''"
  by code_simp

section \<open>Properties of the controller\<close>

subsection \<open>What the base-track operations leave alone\<close>

lemma stop_base_track_frame:
  "base (stop_base_track s) = base s"
  "folder (stop_base_track s) = folder s"
  "main_sound (stop_base_track s) = main_sound s"
  "is_idle_version (stop_base_track s) = is_idle_version s"
  "current_volume (stop_base_track s) = current_volume s"
  "normal_volume (stop_base_track s) = normal_volume s"
  by (simp_all add: stop_base_track_def split: option.splits)

lemma load_base_track_frame:
  "base (load_base_track h s) = base s"
  "is_idle_version (load_base_track h s) = is_idle_version s"
  "current_volume (load_base_track h s) = current_volume s"
  "normal_volume (load_base_track h s) = normal_volume s"
  "music_channel (load_base_track h s) = music_channel s"
  "mixer_log (load_base_track h s) = mixer_log s"
  by (simp_all add: load_base_track_def Let_def split: option.splits)

lemma load_base_track_found:
  "path_exists h (get_full_path h (folder s) (base s)) \<Longrightarrow>
   sound_loads h (get_full_path h (folder s) (base s)) \<Longrightarrow>
   main_sound (load_base_track h s) = Some (get_full_path h (folder s) (base s))"
  by (simp add: load_base_track_def Let_def)

lemma load_base_track_missing:
  "\<not> path_exists h (path_join h (folder s) (mp3 (base s))) \<Longrightarrow>
   find_music_file_case_insensitive h (folder s) (base s) = None \<Longrightarrow>
   load_base_track h s = s"
  by (simp add: load_base_track_def get_full_path_def Let_def)

lemma play_base_track_frame:
  "normal_volume (play_base_track ops s) = normal_volume s"
  "is_idle_version (play_base_track ops s) = is_idle_version s"
  "current_volume (play_base_track ops s) = current_volume s"
  "idle_channel (play_base_track ops s) = idle_channel s"
  "(music_channel (play_base_track ops s) = None) = (music_channel s = None)"
  "length (mixer_log s) \<le> length (mixer_log (play_base_track ops s))"
  "base (play_base_track ops s) = base s"
  "main_sound (play_base_track ops s) = main_sound s"
  by (simp_all add: play_base_track_def split: option.splits)

subsection \<open>Zone change\<close>

text \<open>
  C7 (as amended). After \<^verbatim>\<open>set_zone_music\<close> the base track is the map entry of the zone
  when there is one and the lower-cased zone identifier otherwise, in both cases without
  one trailing \<^verbatim>\<open>.mp3\<close>.
\<close>

theorem set_zone_music_resolves:
  "base (set_zone_music h ops zone_name s) =
     (case map_of (zone_music_map s) zone_name of
        Some t \<Rightarrow> strip_mp3 t
      | None \<Rightarrow> strip_mp3 (lower zone_name))"
proof -
  have t: "zone_track_name (zone_music_map s) zone_name =
     (case map_of (zone_music_map s) zone_name of
        Some t \<Rightarrow> strip_mp3 t
      | None \<Rightarrow> strip_mp3 (lower zone_name))"
    by (simp add: zone_track_name_def split: option.splits)
  have "base (set_zone_music h ops zone_name s) = zone_track_name (zone_music_map s) zone_name"
    by (simp add: set_zone_music_def Let_def play_base_track_frame load_base_track_frame
        stop_base_track_frame)
  with t show ?thesis by simp
qed

lemma lower_cave: "lower ''Cave.mp3'' = ''cave.mp3''"
  by code_simp

text \<open>
  C7 as stated fails: the zone \<^verbatim>\<open>Cave.mp3\<close> has no map entry, its lower-cased identifier
  is \<^verbatim>\<open>cave.mp3\<close>, and it resolves to \<^verbatim>\<open>cave\<close>.
\<close>

theorem zone_not_resolved_to_lowercase:
  "map_of (zone_music_map playing_state) ''Cave.mp3'' = None
   \<and> lower ''Cave.mp3'' = ''cave.mp3''
   \<and> zone_track_name (zone_music_map playing_state) ''Cave.mp3'' = ''cave''
   \<and> base (set_zone_music town_host exact_ops ''Cave.mp3'' playing_state) \<noteq> lower ''Cave.mp3''"
proof -
  have "base (set_zone_music town_host exact_ops ''Cave.mp3'' playing_state) = ''cave''"
    by (simp add: set_zone_music_def Let_def play_base_track_frame load_base_track_frame
        stop_base_track_frame zone_track_name_def playing_state_def lower_cave strip_mp3_def
        endswith_def)
  then show ?thesis
    by (simp add: zone_track_name_def playing_state_def lower_cave strip_mp3_def endswith_def)
qed

text \<open>
  C6. When the zone resolves to the current base track, \<^verbatim>\<open>set_zone_music\<close> returns the
  controller as it was: no field changes and no call is made on the mixer.
\<close>

theorem set_zone_music_same_track_noop:
  "zone_track_name (zone_music_map s) zone_name = base s \<Longrightarrow>
   set_zone_music h ops zone_name s = s"
  by (simp add: set_zone_music_def)

theorem set_zone_music_same_track_noop_witness:
  "zone_track_name (zone_music_map playing_state) ''coroTown'' = base playing_state
   \<and> set_zone_music town_host exact_ops ''coroTown'' playing_state = playing_state"
proof -
  have h: "zone_track_name (zone_music_map playing_state) ''coroTown'' = base playing_state"
    by (simp add: zone_track_name_def playing_state_def strip_mp3_def endswith_def)
  from h set_zone_music_same_track_noop [OF h, of town_host exact_ops] show ?thesis
    by simp
qed

text \<open>
  C2 (as amended). When the zone resolves to another track than the current one and the
  sound of that track is found and loads, \<^verbatim>\<open>set_zone_music\<close> leaves the idle flag
  cleared and \<open>current_volume\<close> equal to \<open>normal_volume\<close>, whatever they were before.
\<close>

theorem set_zone_music_resets_idle:
  assumes "zone_track_name (zone_music_map s) zone_name \<noteq> base s"
    and "path_exists h (get_full_path h (folder s) (zone_track_name (zone_music_map s) zone_name))"
    and "sound_loads h (get_full_path h (folder s) (zone_track_name (zone_music_map s) zone_name))"
  shows "\<not> is_idle_version (set_zone_music h ops zone_name s)
    \<and> current_volume (set_zone_music h ops zone_name s)
        = normal_volume (set_zone_music h ops zone_name s)
    \<and> normal_volume (set_zone_music h ops zone_name s) = normal_volume s
    \<and> base (set_zone_music h ops zone_name s) = zone_track_name (zone_music_map s) zone_name
    \<and> main_sound (set_zone_music h ops zone_name s) =
        Some (get_full_path h (folder s) (zone_track_name (zone_music_map s) zone_name))"
proof -
  define t where "t = zone_track_name (zone_music_map s) zone_name"
  define s0 where "s0 = stop_base_track (s\<lparr>base := t\<rparr>)"
  have s0: "base s0 = t" "folder s0 = folder s" "normal_volume s0 = normal_volume s"
    by (simp_all add: s0_def stop_base_track_frame)
  have loaded: "main_sound (load_base_track h s0) = Some (get_full_path h (folder s) t)"
    using load_base_track_found [of h s0] assms(2,3) by (simp add: s0 t_def)
  have "set_zone_music h ops zone_name s =
      (play_base_track ops (load_base_track h s0))
        \<lparr>is_idle_version := False,
         current_volume := normal_volume (play_base_track ops (load_base_track h s0))\<rparr>"
    using assms(1) loaded
    by (simp add: set_zone_music_def Let_def t_def [symmetric] s0_def [symmetric])
  then show ?thesis
    using loaded
    by (simp add: play_base_track_frame load_base_track_frame s0 t_def [symmetric])
qed

text \<open>
  A zone change while muffled and idle, to a zone whose track is found through the
  underscore-to-space retry.
\<close>

theorem set_zone_music_resets_idle_witness:
  "zone_track_name (zone_music_map playing_state) ''route_1'' \<noteq> base playing_state
   \<and> \<not> is_idle_version (set_zone_music town_host exact_ops ''route_1''
          (playing_state\<lparr>current_volume := 1 / 5, is_idle_version := True\<rparr>))
   \<and> current_volume (set_zone_music town_host exact_ops ''route_1''
          (playing_state\<lparr>current_volume := 1 / 5, is_idle_version := True\<rparr>)) = 3 / 5
   \<and> main_sound (set_zone_music town_host exact_ops ''route_1''
          (playing_state\<lparr>current_volume := 1 / 5, is_idle_version := True\<rparr>))
       = Some ''music/Route 1.mp3''"
proof -
  define s where "s = playing_state\<lparr>current_volume := 1 / 5, is_idle_version := True\<rparr>"
  have t: "zone_track_name (zone_music_map playing_state) ''route_1'' = ''route_1''"
    by code_simp
  have p: "get_full_path town_host (folder playing_state) ''route_1'' = ''music/Route 1.mp3''"
    by code_simp
  have e: "path_exists town_host ''music/Route 1.mp3''" "sound_loads town_host ''music/Route 1.mp3''"
    by code_simp+
  have n: "normal_volume playing_state = 3 / 5" "base playing_state = ''CoroTown''"
    by (simp_all add: playing_state_def)
  have h1: "zone_track_name (zone_music_map s) ''route_1'' \<noteq> base s"
    by (simp add: s_def t n)
  have h2: "path_exists town_host
      (get_full_path town_host (folder s) (zone_track_name (zone_music_map s) ''route_1''))"
    by (simp add: s_def t p e)
  have h3: "sound_loads town_host
      (get_full_path town_host (folder s) (zone_track_name (zone_music_map s) ''route_1''))"
    by (simp add: s_def t p e)
  from set_zone_music_resets_idle [OF h1 h2 h3, of exact_ops] show ?thesis
    by (simp add: s_def t p n)
qed

text \<open>
  C2 as stated fails. On a host where no track can be loaded the controller is silent;
  after \<^verbatim>\<open>trigger_idle_audio(1)\<close> a change to zone \<^verbatim>\<open>cave\<close> (another track than the
  current one) finds no sound to play and skips the reset, which stands under
  \<^verbatim>\<open>if self.main_sound\<close>: the idle flag stays set and the volume stays muffled.
\<close>

theorem set_zone_music_keeps_idle_without_sound:
  "\<not> isl muffled_silent_run
   \<and> zone_track_name (zone_music_map muffled_silent_state) ''cave'' \<noteq> base muffled_silent_state
   \<and> is_idle_version (set_zone_music bare_host exact_ops ''cave'' muffled_silent_state)
   \<and> current_volume (set_zone_music bare_host exact_ops ''cave'' muffled_silent_state)
       \<noteq> normal_volume (set_zone_music bare_host exact_ops ''cave'' muffled_silent_state)"
  by code_simp

text \<open>The example controller is the one the constructor builds.\<close>

lemma init_playing_state:
  "init_music_manager town_host exact_ops ''CoroTown'' ''music'' None = Inr playing_state"
  by code_simp

text \<open>
  C3, the base lane. The controller plays \<^verbatim>\<open>CoroTown\<close>; the zone \<^verbatim>\<open>cave\<close> resolves to
  a track with no asset. \<^verbatim>\<open>load_base_track\<close> leaves the sound loaded before in
  \<open>main_sound\<close>, so \<^verbatim>\<open>if self.main_sound\<close> holds and the base lane, just stopped, is
  started again with the previous track under the new base name: it is not silent.
\<close>

theorem set_zone_music_missing_asset_replays_previous:
  "zone_track_name (zone_music_map playing_state) ''cave'' = ''cave''
  \<and> \<not> path_exists town_host (get_full_path town_host (folder playing_state) ''cave'')
  \<and> find_music_file_case_insensitive town_host (folder playing_state) ''cave'' = None
  \<and> base (set_zone_music town_host exact_ops ''cave'' playing_state) = ''cave''
  \<and> music_channel (set_zone_music town_host exact_ops ''cave'' playing_state)
      = Some \<lparr>ch_id = 0, ch_sound = Some ''music/CoroTown.mp3'', ch_volume = 3 / 5\<rparr>
  \<and> mixer_log (set_zone_music town_host exact_ops ''cave'' playing_state)
      = mixer_log playing_state @ [ChStop 0, ChPlay 0 ''music/CoroTown.mp3'', ChSetVolume 0 (3 / 5)]"
  by code_simp

text \<open>
  In general: with no asset for the new track, the base lane stays stopped only when no
  sound had been loaded before.
\<close>

lemma set_zone_music_missing_asset:
  assumes "zone_track_name (zone_music_map s) zone_name = t" and "t \<noteq> base s"
    and "\<not> path_exists h (path_join h (folder s) (mp3 t))"
    and "find_music_file_case_insensitive h (folder s) t = None"
  shows "set_zone_music h ops zone_name s =
    (case main_sound s of
       None \<Rightarrow> stop_base_track (s\<lparr>base := t\<rparr>)
     | Some old \<Rightarrow>
         (play_base_track ops (stop_base_track (s\<lparr>base := t\<rparr>)))
           \<lparr>is_idle_version := False, current_volume := normal_volume s\<rparr>)"
proof -
  define s0 where "s0 = stop_base_track (s\<lparr>base := t\<rparr>)"
  have s0: "base s0 = t" "folder s0 = folder s" "main_sound s0 = main_sound s"
    "normal_volume s0 = normal_volume s"
    by (simp_all add: s0_def stop_base_track_frame)
  have "load_base_track h s0 = s0"
    using assms(3,4) by (intro load_base_track_missing) (simp_all add: s0)
  then show ?thesis
    using assms(1,2)
    by (simp add: set_zone_music_def Let_def s0_def [symmetric] s0 play_base_track_frame
        split: option.splits)
qed

subsection \<open>Idle tracks\<close>

lemma play_idle_track_frame:
  "music_channel (play_idle_track h ops t s) = music_channel s"
  "current_volume (play_idle_track h ops t s) = current_volume s"
  "normal_volume (play_idle_track h ops t s) = normal_volume s"
  "is_idle_version (play_idle_track h ops t s) = is_idle_version s"
  "main_sound (play_idle_track h ops t s) = main_sound s"
  "base (play_idle_track h ops t s) = base s"
  by (simp_all add: play_idle_track_def try_play_idle_def Let_def split: option.splits)

lemma play_idle_track_stops_first:
  "idle_channel s = Some ich \<Longrightarrow>
   \<exists>lg. mixer_log (play_idle_track h ops t s) = mixer_log s @ ChStop (ch_id ich) # lg"
  by (simp add: play_idle_track_def try_play_idle_def Let_def ch_stop_def split: option.splits)

lemma play_idle_track_found:
  assumes "idle_channel s = Some ich"
    and "path_exists h (get_full_path h (folder s) t)"
    and "sound_loads h (get_full_path h (folder s) t)"
  shows "play_idle_track h ops t s =
     s\<lparr>idle_sound := Some (get_full_path h (folder s) t),
       idle_channel := Some (ich\<lparr>ch_sound := Some (get_full_path h (folder s) t),
                                ch_volume := muffled_volume s\<rparr>),
       mixer_log := mixer_log s @ [ChStop (ch_id ich), ChPlay (ch_id ich) (get_full_path h (folder s) t),
                                   ChSetVolume (ch_id ich) (muffled_volume s)]\<rparr>"
  using assms
  by (simp add: play_idle_track_def try_play_idle_def Let_def ch_stop_def ch_play_def
      ch_set_volume_def)

lemma play_idle_track_missing:
  assumes "idle_channel s = Some ich"
    and "\<not> path_exists h (path_join h (folder s) (mp3 t))"
    and "find_music_file_case_insensitive h (folder s) t = None"
  shows "play_idle_track h ops t s =
     s\<lparr>idle_channel := Some (ich\<lparr>ch_sound := None\<rparr>),
       mixer_log := mixer_log s @ [ChStop (ch_id ich)]\<rparr>"
  using assms
  by (simp add: play_idle_track_def get_full_path_def Let_def ch_stop_def)

text \<open>
  C8 (as amended). With both channels initialised, \<^verbatim>\<open>trigger_idle_audio\<close> with option
  2 or 3 returns without an exception, first stops the idle lane, and leaves the base
  channel (its sound and its volume) and \<open>current_volume\<close> as they were; when the asset
  of the fixed track (\<^verbatim>\<open>idleDaniel\<close> or \<^verbatim>\<open>idle_track_2\<close>) is found and loads, the
  idle lane then plays it at the muffled volume, and these are the only calls made on the
  mixer.
\<close>

theorem trigger_idle_audio_separate_track:
  assumes "idle_option = 2 \<or> idle_option = 3"
    and "music_channel s \<noteq> None"
    and "idle_channel s = Some ich"
  shows "\<exists>s'. trigger_idle_audio h ops idle_option s = Inr s'
      \<and> music_channel s' = music_channel s \<and> current_volume s' = current_volume s
      \<and> is_idle_version s'
      \<and> (\<exists>lg. mixer_log s' = mixer_log s @ ChStop (ch_id ich) # lg)
      \<and> (path_exists h (get_full_path h (folder s)
              (if idle_option = 2 then ''idleDaniel'' else ''idle_track_2''))
         \<and> sound_loads h (get_full_path h (folder s)
              (if idle_option = 2 then ''idleDaniel'' else ''idle_track_2'')) \<longrightarrow>
           idle_channel s' =
             Some (ich\<lparr>ch_sound := Some (get_full_path h (folder s)
                          (if idle_option = 2 then ''idleDaniel'' else ''idle_track_2'')),
                       ch_volume := muffled_volume s\<rparr>)
           \<and> mixer_log s' = mixer_log s @
               [ChStop (ch_id ich),
                ChPlay (ch_id ich) (get_full_path h (folder s)
                          (if idle_option = 2 then ''idleDaniel'' else ''idle_track_2'')),
                ChSetVolume (ch_id ich) (muffled_volume s)])"
proof -
  define t where "t = (if idle_option = 2 then ''idleDaniel'' else ''idle_track_2'')"
  define s' where "s' = (play_idle_track h ops t s)\<lparr>is_idle_version := True\<rparr>"
  have run: "trigger_idle_audio h ops idle_option s = Inr s'"
    using assms(1,2) by (auto simp: trigger_idle_audio_def s'_def t_def)
  have frame: "music_channel s' = music_channel s" "current_volume s' = current_volume s"
    "is_idle_version s'"
    by (simp_all add: s'_def play_idle_track_frame)
  from play_idle_track_stops_first [OF assms(3), of h ops t]
  have stop: "\<exists>lg. mixer_log s' = mixer_log s @ ChStop (ch_id ich) # lg"
    by (simp add: s'_def)
  have found: "idle_channel s' =
        Some (ich\<lparr>ch_sound := Some (get_full_path h (folder s) t), ch_volume := muffled_volume s\<rparr>)
      \<and> mixer_log s' = mixer_log s @
           [ChStop (ch_id ich), ChPlay (ch_id ich) (get_full_path h (folder s) t),
            ChSetVolume (ch_id ich) (muffled_volume s)]"
    if "path_exists h (get_full_path h (folder s) t)" "sound_loads h (get_full_path h (folder s) t)"
    using play_idle_track_found [OF assms(3) that, of ops] by (simp add: s'_def)
  from run frame stop found show ?thesis
    unfolding t_def by blast
qed

theorem trigger_idle_audio_separate_track_witness:
  "\<exists>s'. trigger_idle_audio town_host exact_ops 2 playing_state = Inr s'
     \<and> music_channel s' = music_channel playing_state \<and> current_volume s' = 3 / 5
     \<and> is_idle_version s'
     \<and> idle_channel s' =
          Some \<lparr>ch_id = 1, ch_sound = Some ''music/idleDaniel.mp3'', ch_volume = 1 / 5\<rparr>
     \<and> mixer_log s' = mixer_log playing_state @
          [ChStop 1, ChPlay 1 ''music/idleDaniel.mp3'', ChSetVolume 1 (1 / 5)]"
proof -
  have p: "get_full_path town_host (folder playing_state) ''idleDaniel'' = ''music/idleDaniel.mp3''"
    by code_simp
  have e: "path_exists town_host ''music/idleDaniel.mp3''"
    "sound_loads town_host ''music/idleDaniel.mp3''"
    by code_simp+
  have h: "(2::int) = 2 \<or> (2::int) = 3" "music_channel playing_state \<noteq> None"
    "idle_channel playing_state = Some \<lparr>ch_id = 1, ch_sound = None, ch_volume = 1\<rparr>"
    by (simp_all add: playing_state_def)
  from trigger_idle_audio_separate_track [OF h, of town_host exact_ops] p e
  show ?thesis
    by (auto simp: playing_state_def)
qed

text \<open>
  C8 as stated fails. The music directory of \<open>town_host\<close> has no \<^verbatim>\<open>idle_track_2\<close>
  under any spelling; option 3 stops the idle lane and plays nothing on it (the branch
  \<^verbatim>\<open>Idle track not found\<close> of \<^verbatim>\<open>play_idle_track\<close>).
\<close>

theorem trigger_idle_audio_missing_track_plays_nothing:
  "music_channel playing_state \<noteq> None
   \<and> idle_channel playing_state = Some \<lparr>ch_id = 1, ch_sound = None, ch_volume = 1\<rparr>
   \<and> find_music_file_case_insensitive town_host (folder playing_state) ''idle_track_2'' = None
   \<and> trigger_idle_audio town_host exact_ops 3 playing_state =
       Inr (playing_state\<lparr>idle_channel := Some \<lparr>ch_id = 1, ch_sound = None, ch_volume = 1\<rparr>,
                          mixer_log := mixer_log playing_state @ [ChStop 1],
                          is_idle_version := True\<rparr>)"
  by code_simp

text \<open>
  C3, the idle lane: with no asset for the idle track the lane is stopped and left
  silent, and no exception is raised.
\<close>

lemma trigger_idle_audio_missing_asset:
  assumes "music_channel s \<noteq> None" and "idle_channel s = Some ich"
    and "\<not> path_exists h (path_join h (folder s) (mp3 ''idleDaniel''))"
    and "find_music_file_case_insensitive h (folder s) ''idleDaniel'' = None"
  shows "trigger_idle_audio h ops 2 s =
     Inr (s\<lparr>idle_channel := Some (ich\<lparr>ch_sound := None\<rparr>),
            mixer_log := mixer_log s @ [ChStop (ch_id ich)],
            is_idle_version := True\<rparr>)"
  using assms(1) play_idle_track_missing [OF assms(2,3,4), of ops]
  by (auto simp: trigger_idle_audio_def)

subsection \<open>Fading\<close>

text \<open>
  A fade never raises when there is a base channel, and changes nothing but
  \<open>current_volume\<close>, the volume of the base channel and the log, which grows by a
  \<^verbatim>\<open>set_volume\<close> and a delay for each step.
\<close>

lemma fade_loop_result:
  "music_channel s = Some ch \<Longrightarrow>
   \<exists>v cv lg. fade_loop ops n volume_step s =
       Inr (s\<lparr>current_volume := v, music_channel := Some (ch\<lparr>ch_volume := cv\<rparr>),
              mixer_log := mixer_log s @ lg\<rparr>) \<and> length lg = 2 * n"
proof (induction n arbitrary: s ch)
  case 0
  have "s = s\<lparr>current_volume := current_volume s,
             music_channel := Some (ch\<lparr>ch_volume := ch_volume ch\<rparr>),
             mixer_log := mixer_log s @ []\<rparr>"
    using 0 by simp
  then show ?case
    by (metis fade_loop.simps(1) length_0_conv mult_0_right list.size(3))
next
  case (Suc n)
  define v' where "v' = py_max ops (f_const ops 0)
      (py_min ops (f_const ops 1) (f_add ops (current_volume s) volume_step))"
  define s' where "s' = s\<lparr>current_volume := v', music_channel := Some (ch_set_volume v' ch),
      mixer_log := mixer_log s @ [ChSetVolume (ch_id ch) v', Delay 30]\<rparr>"
  have step: "fade_loop ops (Suc n) volume_step s = fade_loop ops n volume_step s'"
    using Suc.prems by (simp add: Let_def v'_def s'_def)
  have ch': "music_channel s' = Some (ch\<lparr>ch_volume := v'\<rparr>)"
    by (simp add: s'_def ch_set_volume_def)
  from Suc.IH [OF ch'] obtain v cv lg where
    r: "fade_loop ops n volume_step s' =
          Inr (s'\<lparr>current_volume := v, music_channel := Some (ch\<lparr>ch_volume := v', ch_volume := cv\<rparr>),
                 mixer_log := mixer_log s' @ lg\<rparr>)" and l: "length lg = 2 * n"
    by blast
  have "fade_loop ops (Suc n) volume_step s =
          Inr (s\<lparr>current_volume := v, music_channel := Some (ch\<lparr>ch_volume := cv\<rparr>),
                 mixer_log := mixer_log s @ ([ChSetVolume (ch_id ch) v', Delay 30] @ lg)\<rparr>)"
    unfolding step r by (simp add: s'_def)
  moreover have "length ([ChSetVolume (ch_id ch) v', Delay 30] @ lg) = 2 * Suc n"
    using l by simp
  ultimately show ?case by blast
qed

lemma fade_to_result:
  "music_channel s = Some ch \<Longrightarrow>
   \<exists>v cv lg. fade_to ops target s =
       Inr (s\<lparr>current_volume := v, music_channel := Some (ch\<lparr>ch_volume := cv\<rparr>),
              mixer_log := mixer_log s @ lg\<rparr>) \<and> length lg = 2 * steps"
  using fade_loop_result [of s ch ops steps] by (simp add: fade_to_def)

lemma fade_to_no_channel: "music_channel s = None \<Longrightarrow> fade_to ops target s = Inr s"
  by (simp add: fade_to_def)

subsection \<open>Back from idle\<close>

lemma reset_to_base_audio_idle:
  assumes "is_idle_version s" and "music_channel s \<noteq> None"
  shows "\<exists>s'. reset_to_base_audio ops s = Inr s' \<and> current_volume s' = normal_volume s
          \<and> normal_volume s' = normal_volume s \<and> \<not> is_idle_version s'
          \<and> length (mixer_log s) + 2 * steps \<le> length (mixer_log s')"
proof -
  define s1 where "s1 = (case idle_channel s of
                        Some ch \<Rightarrow>
                          (if get_busy ch
                           then s\<lparr>idle_channel := Some (ch_stop ch),
                                  mixer_log := mixer_log s @ [ChStop (ch_id ch)]\<rparr>
                           else s)
                      | None \<Rightarrow> s)"
  have s1: "music_channel s1 = music_channel s" "normal_volume s1 = normal_volume s"
    "length (mixer_log s) \<le> length (mixer_log s1)"
    by (simp_all add: s1_def split: option.splits)
  from assms(2) s1(1) obtain mch where mch: "music_channel s1 = Some mch" by auto
  define s2 where "s2 = (if \<not> get_busy mch \<and> main_sound s1 \<noteq> None
                              then play_base_track ops s1 else s1)"
  have s2a: "normal_volume s2 = normal_volume s"
    by (simp add: s2_def play_base_track_frame(1) s1(2))
  have "music_channel (play_base_track ops s1) \<noteq> None"
    using mch play_base_track_frame(5) [of ops s1] by simp
  with mch have s2b: "music_channel s2 \<noteq> None"
    by (cases "\<not> get_busy mch \<and> main_sound s1 \<noteq> None") (simp_all add: s2_def)
  have "length (mixer_log s1) \<le> length (mixer_log s2)"
    using play_base_track_frame(6) [of s1 ops] by (simp add: s2_def)
  with s1(3) have s2c: "length (mixer_log s) \<le> length (mixer_log s2)"
    by (rule le_trans)
  note s2 = s2a s2b s2c
  from s2b obtain ch2 where ch2: "music_channel s2 = Some ch2" by auto
  from fade_to_result [OF ch2, of ops "normal_volume s2"] obtain v cv lg where
    f: "fade_to ops (normal_volume s2) s2 =
          Inr (s2\<lparr>current_volume := v, music_channel := Some (ch2\<lparr>ch_volume := cv\<rparr>),
                  mixer_log := mixer_log s2 @ lg\<rparr>)" and lg: "length lg = 2 * steps"
    by blast
  have "reset_to_base_audio ops s =
          Inr (s2\<lparr>current_volume := normal_volume s2, music_channel := Some (ch2\<lparr>ch_volume := cv\<rparr>),
                  mixer_log := mixer_log s2 @ lg, is_idle_version := False\<rparr>)"
    using assms(1) mch f [unfolded s2_def]
    by (simp add: reset_to_base_audio_def Let_def s1_def [symmetric] s2_def
        split del: if_split cong: if_cong)
  then show ?thesis
    using s2 lg by simp
qed

text \<open>
  C4. From an active controller at normal volume, \<^verbatim>\<open>trigger_idle_audio(1)\<close> followed by
  \<^verbatim>\<open>reset_to_base_audio()\<close> raises nothing and ends with \<open>current_volume\<close> equal to
  \<open>normal_volume\<close>: the final assignment decides, whatever the arithmetic of the fades.
\<close>

theorem muffle_then_resume_restores_volume:
  assumes "\<not> is_idle_version s" and "current_volume s = normal_volume s"
  shows "\<exists>s1 s2. trigger_idle_audio h ops 1 s = Inr s1 \<and> reset_to_base_audio ops s1 = Inr s2
          \<and> current_volume s2 = normal_volume s \<and> normal_volume s2 = normal_volume s
          \<and> \<not> is_idle_version s2"
proof (cases "music_channel s")
  case None
  then show ?thesis
    using assms by (simp add: trigger_idle_audio_def reset_to_base_audio_def)
next
  case (Some ch)
  from fade_to_result [OF Some, of ops "muffled_volume s"] obtain v cv lg where
    f1: "fade_to ops (muffled_volume s) s =
          Inr (s\<lparr>current_volume := v, music_channel := Some (ch\<lparr>ch_volume := cv\<rparr>),
                 mixer_log := mixer_log s @ lg\<rparr>)"
    by blast
  define s1 where "s1 = s\<lparr>current_volume := v, music_channel := Some (ch\<lparr>ch_volume := cv\<rparr>),
                 mixer_log := mixer_log s @ lg, is_idle_version := True\<rparr>"
  have t: "trigger_idle_audio h ops 1 s = Inr s1"
    by (simp add: trigger_idle_audio_def Some f1 s1_def)
  have "is_idle_version s1" "music_channel s1 \<noteq> None" "normal_volume s1 = normal_volume s"
    by (simp_all add: s1_def)
  with reset_to_base_audio_idle [of s1 ops] t show ?thesis
    by auto
qed

theorem muffle_then_resume_restores_volume_witness:
  "\<not> is_idle_version playing_state \<and> current_volume playing_state = normal_volume playing_state
   \<and> (\<exists>s1 s2. trigger_idle_audio town_host exact_ops 1 playing_state = Inr s1
          \<and> reset_to_base_audio exact_ops s1 = Inr s2 \<and> current_volume s2 = 3 / 5
          \<and> \<not> is_idle_version s2)"
proof -
  have h: "\<not> is_idle_version playing_state"
    "current_volume playing_state = normal_volume playing_state"
    by (simp_all add: playing_state_def)
  have n: "normal_volume playing_state = 3 / 5"
    by (simp add: playing_state_def)
  from muffle_then_resume_restores_volume [OF h, of town_host exact_ops] h n
  show ?thesis by auto
qed

text \<open>
  C10. With a base channel, an idle option other than 1, 2 and 3 makes no call on the
  mixer and changes no field but \<open>is_idle_version\<close>, which it sets. A
  \<^verbatim>\<open>reset_to_base_audio()\<close> after it then takes its idle branch: it fades (at least the
  twenty log entries of the ten steps), sets \<open>current_volume\<close> to \<open>normal_volume\<close> and
  clears the flag.
\<close>

theorem trigger_idle_audio_other_option:
  assumes "idle_option \<notin> {1, 2, 3}" and "music_channel s \<noteq> None"
  shows "trigger_idle_audio h ops idle_option s = Inr (s\<lparr>is_idle_version := True\<rparr>)
         \<and> (\<exists>s'. reset_to_base_audio ops (s\<lparr>is_idle_version := True\<rparr>) = Inr s'
               \<and> \<not> is_idle_version s' \<and> current_volume s' = normal_volume s
               \<and> length (mixer_log s) + 20 \<le> length (mixer_log s'))"
proof -
  have "trigger_idle_audio h ops idle_option s = Inr (s\<lparr>is_idle_version := True\<rparr>)"
    using assms by (auto simp: trigger_idle_audio_def)
  moreover have "\<exists>s'. reset_to_base_audio ops (s\<lparr>is_idle_version := True\<rparr>) = Inr s'
               \<and> \<not> is_idle_version s' \<and> current_volume s' = normal_volume s
               \<and> length (mixer_log s) + 20 \<le> length (mixer_log s')"
    using reset_to_base_audio_idle [of "s\<lparr>is_idle_version := True\<rparr>" ops] assms(2)
    by (auto simp: steps_def)
  ultimately show ?thesis by blast
qed

theorem trigger_idle_audio_other_option_witness:
  "(4::int) \<notin> {1, 2, 3} \<and> music_channel playing_state \<noteq> None
   \<and> trigger_idle_audio town_host exact_ops 4 playing_state
        = Inr (playing_state\<lparr>is_idle_version := True\<rparr>)
   \<and> (\<exists>s'. reset_to_base_audio exact_ops (playing_state\<lparr>is_idle_version := True\<rparr>) = Inr s'
          \<and> \<not> is_idle_version s' \<and> current_volume s' = 3 / 5
          \<and> 22 \<le> length (mixer_log s'))"
proof -
  have h: "(4::int) \<notin> {1, 2, 3}" "music_channel playing_state \<noteq> None"
    by (simp_all add: playing_state_def)
  have n: "normal_volume playing_state = 3 / 5" "length (mixer_log playing_state) = 2"
    by (simp_all add: playing_state_def)
  from trigger_idle_audio_other_option [OF h, of town_host exact_ops] h n
  show ?thesis by auto
qed

text \<open>Without the stray option the same controller is not idle, and the reset does nothing.\<close>

lemma reset_to_base_audio_active:
  "\<not> is_idle_version s \<Longrightarrow> reset_to_base_audio ops s = Inr s"
  by (simp add: reset_to_base_audio_def)

section \<open>Properties of the idle choice\<close>

text \<open>
  C1. \<^verbatim>\<open>choose_idle_option\<close> returns 1, 2 or 3 and touches no controller (it takes
  none). With the weights 5, 2, 2 the draws \<open>u\<close> of \<open>[0, 1)\<close> that give 1 are those
  below \<open>5/9\<close>, those that give 2 lie in \<open>[5/9, 7/9)\<close> and those that give 3 in
  \<open>[7/9, 1)\<close>: the chances are 5/9, 2/9 and 2/9, not the 50%, 25% and 25% of the
  docstring. The draw \<open>u = 0.52\<close>, above one half, still gives 1.
\<close>

theorem choose_idle_option_thresholds:
  "choose_idle_option u = Inr (if u < 5 / 9 then 1 else if u < 7 / 9 then 2 else 3)
   \<and> choose_idle_option (13 / 25) = Inr 1
   \<and> {u. 0 \<le> u \<and> u < 1 \<and> choose_idle_option u = Inr 1} = {0 ..< 5 / 9}
   \<and> {u. 0 \<le> u \<and> u < 1 \<and> choose_idle_option u = Inr 2} = {5 / 9 ..< 7 / 9}
   \<and> {u. 0 \<le> u \<and> u < 1 \<and> choose_idle_option u = Inr 3} = {7 / 9 ..< 1}"
proof -
  have t: "choose_idle_option u = Inr (if u < 5 / 9 then 1 else if u < 7 / 9 then 2 else 3)"
    for u
    by (simp add: choose_idle_option_def choices_def Let_def)
  show ?thesis
    by (auto simp: t)
qed

end
